theory Spec2Isabelle
  imports Main
begin

section \<open>The declaration surface of \<^verbatim>\<open>RoverIos/Gears/gears.h\<close>\<close>

text \<open>
  The repository's source is one C header of ten lines: four \<^verbatim>\<open>#include\<close> lines, one
  \<^verbatim>\<open>typedef\<close> and two function prototypes. It holds no function body, so what can be
  verified is the header's content as a list of top-level items, and what the C rules for
  type names make of it.
\<close>

subsection \<open>C types and top-level items\<close>

text \<open>
  The types a declaration of the header can spell: \<^verbatim>\<open>void\<close>, \<^verbatim>\<open>char\<close>, a type
  name that is not a keyword (\<open>TNamed\<close>: a typedef name, or a name the surrounding
  translation unit supplies), a \<^verbatim>\<open>const\<close>-qualified type, a pointer, and a function type
  with its return type and parameter types.
\<close>

datatype ctype =
    TVoid
  | TChar
  | TNamed string
  | TConst ctype
  | TPtr ctype
  | TFun ctype "ctype list"

text \<open>
  The top-level items of a header. Only \<open>Include\<close>, \<open>Typedef\<close> and \<open>FunProto\<close> occur in
  gears.h; the other constructors are the remaining external declarations of C (a function
  definition with its body text, an object declaration, a struct and an enum definition),
  so that their absence is a fact about the header and not about the datatype.
\<close>

datatype item =
    Include string
  | Typedef string ctype
  | FunProto string ctype "(string \<times> ctype) list"
  | FunDefn string ctype "(string \<times> ctype) list" string
  | VarDecl string ctype
  | StructDef string "(string \<times> ctype) list"
  | EnumDef string "string list"

text \<open>
  gears.h, line by line:
  \<^verbatim>\<open>
  #include <stdarg.h>
  #include <stdbool.h>
  #include <stdint.h>
  #include <stdlib.h>

  typedef void (*Callback)(const char*);

  void start(NSObject *view, const char *path);

  void devServer(Callback callback);
  \<close>
\<close>

definition gears_h :: "item list" where
  "gears_h =
   [ Include ''stdarg.h'',
     Include ''stdbool.h'',
     Include ''stdint.h'',
     Include ''stdlib.h'',
     Typedef ''Callback'' (TPtr (TFun TVoid [TPtr (TConst TChar)])),
     FunProto ''start'' TVoid
       [(''view'', TPtr (TNamed ''NSObject'')), (''path'', TPtr (TConst TChar))],
     FunProto ''devServer'' TVoid [(''callback'', TNamed ''Callback'')] ]"

subsection \<open>Reading the items\<close>

text \<open>The functions a header declares or defines, in order, with return type and parameters.\<close>

fun functions_of :: "item list \<Rightarrow> (string \<times> ctype \<times> (string \<times> ctype) list) list" where
  "functions_of [] = []"
| "functions_of (FunProto f r ps # its) = (f, r, ps) # functions_of its"
| "functions_of (FunDefn f r ps b # its) = (f, r, ps) # functions_of its"
| "functions_of (_ # its) = functions_of its"

text \<open>The functions that come with a body.\<close>

fun definitions_of :: "item list \<Rightarrow> (string \<times> string) list" where
  "definitions_of [] = []"
| "definitions_of (FunDefn f r ps b # its) = (f, b) # definitions_of its"
| "definitions_of (_ # its) = definitions_of its"

text \<open>The functions declared by a prototype only.\<close>

fun prototypes_of :: "item list \<Rightarrow> string list" where
  "prototypes_of [] = []"
| "prototypes_of (FunProto f r ps # its) = f # prototypes_of its"
| "prototypes_of (_ # its) = prototypes_of its"

fun includes_of :: "item list \<Rightarrow> string list" where
  "includes_of [] = []"
| "includes_of (Include h # its) = h # includes_of its"
| "includes_of (_ # its) = includes_of its"

fun typedefs_of :: "item list \<Rightarrow> (string \<times> ctype) list" where
  "typedefs_of [] = []"
| "typedefs_of (Typedef n t # its) = (n, t) # typedefs_of its"
| "typedefs_of (_ # its) = typedefs_of its"

fun variables_of :: "item list \<Rightarrow> (string \<times> ctype) list" where
  "variables_of [] = []"
| "variables_of (VarDecl n t # its) = (n, t) # variables_of its"
| "variables_of (_ # its) = variables_of its"

text \<open>The struct and enum tags a header defines.\<close>

fun tags_of :: "item list \<Rightarrow> string list" where
  "tags_of [] = []"
| "tags_of (StructDef n fs # its) = n # tags_of its"
| "tags_of (EnumDef n cs # its) = n # tags_of its"
| "tags_of (_ # its) = tags_of its"

text \<open>
  Every identifier with external linkage that a header introduces: its functions and its
  objects. Type aliases have no linkage and are listed by \<open>typedefs_of\<close>.
\<close>

definition external_symbols :: "item list \<Rightarrow> string list" where
  "external_symbols its = map fst (functions_of its) @ map fst (variables_of its)"

text \<open>The signature of a function as the header spells it: return type and parameter types.\<close>

definition declared_signature :: "item list \<Rightarrow> string \<Rightarrow> (ctype \<times> ctype list) option" where
  "declared_signature its f =
     (case map_of (functions_of its) f of
        None \<Rightarrow> None
      | Some (r, ps) \<Rightarrow> Some (r, map snd ps))"

subsection \<open>Typedef names are aliases\<close>

text \<open>
  A typedef name denotes the type it was declared with (C11 6.7.8): \<open>expand\<close> replaces
  every name that the environment defines and leaves the others as they are. The
  environment of a header is built in declaration order, each typedef expanded with the
  ones before it.
\<close>

fun expand :: "(string \<times> ctype) list \<Rightarrow> ctype \<Rightarrow> ctype" where
  "expand env TVoid = TVoid"
| "expand env TChar = TChar"
| "expand env (TNamed n) = (case map_of env n of Some t \<Rightarrow> t | None \<Rightarrow> TNamed n)"
| "expand env (TConst t) = TConst (expand env t)"
| "expand env (TPtr t) = TPtr (expand env t)"
| "expand env (TFun r ps) = TFun (expand env r) (map (expand env) ps)"

fun typedef_env :: "(string \<times> ctype) list \<Rightarrow> item list \<Rightarrow> (string \<times> ctype) list" where
  "typedef_env env [] = env"
| "typedef_env env (Typedef n t # its) = typedef_env ((n, expand env t) # env) its"
| "typedef_env env (_ # its) = typedef_env env its"

text \<open>The signature of a function with the header's own typedef names expanded.\<close>

definition signature :: "item list \<Rightarrow> string \<Rightarrow> (ctype \<times> ctype list) option" where
  "signature its f =
     (case declared_signature its f of
        None \<Rightarrow> None
      | Some (r, ps) \<Rightarrow>
          Some (expand (typedef_env [] its) r, map (expand (typedef_env [] its)) ps))"

subsection \<open>The ways from a function back to its caller\<close>





text \<open>Return type of every function of a header, typedef names expanded.\<close>

definition return_types :: "item list \<Rightarrow> (string \<times> ctype) list" where
  "return_types its =
     map (\<lambda>(f, r, ps). (f, expand (typedef_env [] its) r)) (functions_of its)"

text \<open>Every parameter of every function: function, parameter name, expanded type.\<close>

definition parameters :: "item list \<Rightarrow> (string \<times> string \<times> ctype) list" where
  "parameters its =
     concat (map (\<lambda>(f, r, ps). map (\<lambda>(p, t). (f, p, expand (typedef_env [] its) t)) ps)
       (functions_of its))"



subsection \<open>Type names and where they come from\<close>

text \<open>The type names a type mentions.\<close>

fun type_names :: "ctype \<Rightarrow> string list" where
  "type_names TVoid = []"
| "type_names TChar = []"
| "type_names (TNamed n) = [n]"
| "type_names (TConst t) = type_names t"
| "type_names (TPtr t) = type_names t"
| "type_names (TFun r ps) = type_names r @ concat (map type_names ps)"

text \<open>Every type name that the declarations of a header mention, in order.\<close>

fun mentioned :: "item list \<Rightarrow> string list" where
  "mentioned [] = []"
| "mentioned (Include h # its) = mentioned its"
| "mentioned (Typedef n t # its) = type_names t @ mentioned its"
| "mentioned (FunProto f r ps # its) =
     type_names r @ concat (map (\<lambda>(p, t). type_names t) ps) @ mentioned its"
| "mentioned (FunDefn f r ps b # its) =
     type_names r @ concat (map (\<lambda>(p, t). type_names t) ps) @ mentioned its"
| "mentioned (VarDecl n t # its) = type_names t @ mentioned its"
| "mentioned (StructDef n fs # its) =
     concat (map (\<lambda>(p, t). type_names t) fs) @ mentioned its"
| "mentioned (EnumDef n cs # its) = mentioned its"









subsection \<open>Facts used throughout\<close>

lemma functions_of_gears_h:
  "functions_of gears_h =
     [ (''start'', TVoid,
         [(''view'', TPtr (TNamed ''NSObject'')), (''path'', TPtr (TConst TChar))]),
       (''devServer'', TVoid, [(''callback'', TNamed ''Callback'')]) ]"
  by (simp add: gears_h_def)

lemma typedef_env_gears_h:
  "typedef_env [] gears_h = [(''Callback'', TPtr (TFun TVoid [TPtr (TConst TChar)]))]"
  by (simp add: gears_h_def)

lemma parameters_gears_h:
  "parameters gears_h =
     [ (''start'', ''view'', TPtr (TNamed ''NSObject'')),
       (''start'', ''path'', TPtr (TConst TChar)),
       (''devServer'', ''callback'', TPtr (TFun TVoid [TPtr (TConst TChar)])) ]"
  by (simp add: parameters_def functions_of_gears_h typedef_env_gears_h)

section \<open>The claims\<close>

text \<open>
  C1. The external interface of the header consists of exactly two entry points,
  \<^verbatim>\<open>start\<close> and \<^verbatim>\<open>devServer\<close>: these are the only functions it declares, it declares
  them once each, and it declares no object; the type alias apart, nothing else is
  exposed.
\<close>

theorem C1_two_entry_points:
  "map fst (functions_of gears_h) = [''start'', ''devServer'']
   \<and> external_symbols gears_h = [''start'', ''devServer'']
   \<and> map fst (typedefs_of gears_h) = [''Callback'']"
  by (simp add: external_symbols_def gears_h_def)

text \<open>
  C2, as the specification states it: \<^verbatim>\<open>start\<close> has the signature
  \<^verbatim>\<open>void start(ViewHandle view, const char *path)\<close>, its first parameter of a type named
  \<^verbatim>\<open>ViewHandle\<close>. The header declares no such signature, neither as spelled nor after
  expanding its typedef names.
\<close>

theorem C2_start_ViewHandle_counterexample:
  "signature gears_h ''start''
     \<noteq> Some (TVoid, [TNamed ''ViewHandle'', TPtr (TConst TChar)])
   \<and> declared_signature gears_h ''start''
     \<noteq> Some (TVoid, [TNamed ''ViewHandle'', TPtr (TConst TChar)])"
  by (simp add: signature_def declared_signature_def functions_of_gears_h
      typedef_env_gears_h)

text \<open>
  C2, amended: \<^verbatim>\<open>start\<close> has exactly the signature
  \<^verbatim>\<open>void start(NSObject *view, const char *path)\<close>. Its first parameter, the view handle,
  is a pointer to the type name \<^verbatim>\<open>NSObject\<close>; its second, the path, is a pointer to
  \<^verbatim>\<open>const char\<close>; it returns no value. The name \<^verbatim>\<open>ViewHandle\<close> occurs nowhere in the
  header, neither as a typedef nor in a declaration.
\<close>

theorem C2_start_signature:
  "signature gears_h ''start''
     = Some (TVoid, [TPtr (TNamed ''NSObject''), TPtr (TConst TChar)])
   \<and> declared_signature gears_h ''start''
     = Some (TVoid, [TPtr (TNamed ''NSObject''), TPtr (TConst TChar)])
   \<and> ''ViewHandle'' \<notin> set (map fst (typedefs_of gears_h) @ mentioned gears_h)"
  by (simp add: signature_def declared_signature_def functions_of_gears_h
      typedef_env_gears_h gears_h_def)

text \<open>
  C3. \<^verbatim>\<open>devServer\<close> has exactly the signature
  \<^verbatim>\<open>void devServer(void (*callback)(const char *))\<close>: with the typedef name expanded, its
  single parameter is a pointer to a function that takes one pointer to \<^verbatim>\<open>const char\<close>
  and returns nothing, and \<^verbatim>\<open>devServer\<close> returns no value.
\<close>

theorem C3_devServer_signature:
  "signature gears_h ''devServer''
     = Some (TVoid, [TPtr (TFun TVoid [TPtr (TConst TChar)])])"
  by (simp add: signature_def declared_signature_def functions_of_gears_h
      typedef_env_gears_h)



text \<open>
  C5. The header holds declarations only: no function comes with a body, and
  \<^verbatim>\<open>start\<close> and \<^verbatim>\<open>devServer\<close>, its only functions, are both prototypes.
\<close>

theorem C5_declarations_only:
  "definitions_of gears_h = []
   \<and> prototypes_of gears_h = [''start'', ''devServer'']
   \<and> map fst (functions_of gears_h) = prototypes_of gears_h"
  by (simp add: gears_h_def)

text \<open>
  C6. The value types of the interface are three: the view handle (a pointer to
  \<^verbatim>\<open>NSObject\<close>, opaque in that the header defines neither a type nor a tag of that
  name), the path (a pointer to \<^verbatim>\<open>const char\<close>), and a pointer to a function of one
  string argument. The header defines no struct and no enum; its only type definition is
  the alias for the function pointer.
\<close>

theorem C6_interface_types:
  "map (\<lambda>(f, p, t). t) (parameters gears_h)
     = [ TPtr (TNamed ''NSObject''), TPtr (TConst TChar),
         TPtr (TFun TVoid [TPtr (TConst TChar)]) ]
   \<and> map snd (return_types gears_h) = [TVoid, TVoid]
   \<and> tags_of gears_h = []
   \<and> map snd (typedefs_of gears_h) = [TPtr (TFun TVoid [TPtr (TConst TChar)])]
   \<and> ''NSObject'' \<notin> set (map fst (typedefs_of gears_h) @ tags_of gears_h)"
proof -
  have "map (\<lambda>(f, p, t). t) (parameters gears_h)
     = [ TPtr (TNamed ''NSObject''), TPtr (TConst TChar),
         TPtr (TFun TVoid [TPtr (TConst TChar)]) ]"
    by (simp add: parameters_gears_h)
  moreover have "map snd (return_types gears_h) = [TVoid, TVoid]"
    by (simp add: return_types_def functions_of_gears_h)
  moreover have "tags_of gears_h = []"
    and "map snd (typedefs_of gears_h) = [TPtr (TFun TVoid [TPtr (TConst TChar)])]"
    and "''NSObject'' \<notin> set (map fst (typedefs_of gears_h) @ tags_of gears_h)"
    by (simp_all add: gears_h_def)
  ultimately show ?thesis by blast
qed

text \<open>
  C7. The header declares no state: no object (global variable) is declared, no function
  body is present that could read the environment or a file, and no struct or enum is
  defined that could describe a format or a message. Every one of its seven items is an
  include, the typedef or a prototype.
\<close>

theorem C7_no_state:
  "variables_of gears_h = []
   \<and> definitions_of gears_h = []
   \<and> tags_of gears_h = []
   \<and> length gears_h
       = length (includes_of gears_h) + length (typedefs_of gears_h)
         + length (prototypes_of gears_h)"
  by (simp add: gears_h_def)



text \<open>
  C9. The header gives the callback type a public name: its one typedef is
  \<^verbatim>\<open>Callback\<close>, a pointer to a function from a pointer to \<^verbatim>\<open>const char\<close> to
  \<^verbatim>\<open>void\<close>, and \<^verbatim>\<open>devServer\<close> is declared with that name for its parameter, not with
  the function-pointer type written inline.
\<close>

theorem C9_Callback_typedef:
  "typedefs_of gears_h = [(''Callback'', TPtr (TFun TVoid [TPtr (TConst TChar)]))]
   \<and> declared_signature gears_h ''devServer'' = Some (TVoid, [TNamed ''Callback''])
   \<and> declared_signature gears_h ''devServer'' \<noteq> signature gears_h ''devServer''"
proof -
  have "typedefs_of gears_h = [(''Callback'', TPtr (TFun TVoid [TPtr (TConst TChar)]))]"
    by (simp add: gears_h_def)
  moreover have d: "declared_signature gears_h ''devServer'' = Some (TVoid, [TNamed ''Callback''])"
    by (simp add: declared_signature_def functions_of_gears_h)
  moreover have "declared_signature gears_h ''devServer'' \<noteq> signature gears_h ''devServer''"
    by (simp add: signature_def d typedef_env_gears_h)
  ultimately show ?thesis by blast
qed

end
